theory Spec2Isabelle
  imports Main "HOL-Library.Sublist"
begin

section \<open>Configuration values\<close>

text \<open>
  The three configuration documents are what \<^verbatim>\<open>yaml.safe_load\<close> returns. The model
  keeps the part of that value space the code inspects:
  \<^item> a scalar is \<^verbatim>\<open>None\<close>, a boolean, an integer or a string (floats are left out);
  \<^item> a dictionary is the list of its items in insertion order, with string keys; a
    Python dictionary has pairwise distinct keys, and no theorem below needs that;
  \<^item> the value stored under a segment name is a dictionary of scalars or a scalar
    (\<^verbatim>\<open>generate_segment_breakdown\<close> tests \<^verbatim>\<open>isinstance(seg_def, dict)\<close>);
  \<^item> the value stored under a segment type is a dictionary of such entries or a scalar,
    as for \<^verbatim>\<open>loyalty_tiers:\<close> with nothing after the colon, which loads as \<^verbatim>\<open>None\<close>;
  \<^item> a metric is a dictionary of scalars.
  A \<open>char\<close> stands for one code point below 256 of a Python \<^verbatim>\<open>str\<close>.
\<close>

datatype scalar = SNone | SBool bool | SInt int | SStr string

type_synonym pydict = "(string \<times> scalar) list"

datatype pyval = Scalar scalar | Dict pydict

datatype typeval = TypeDict "(string \<times> pyval) list" | TypeScalar scalar

datatype error =
    ValueError string
  | AttributeError
  | TypeError
  | KeyError string
  | FileNotFoundError string string

subsection \<open>Python built-ins used by the code\<close>

text \<open>Truthiness, as tested by \<^verbatim>\<open>if x:\<close> and \<^verbatim>\<open>not x\<close>.\<close>

fun truthy :: "scalar \<Rightarrow> bool" where
  "truthy SNone = False"
| "truthy (SBool b) = b"
| "truthy (SInt i) = (i \<noteq> 0)"
| "truthy (SStr s) = (s \<noteq> [])"

fun truthy_val :: "pyval \<Rightarrow> bool" where
  "truthy_val (Scalar s) = truthy s"
| "truthy_val (Dict d) = (d \<noteq> [])"

text \<open>\<^verbatim>\<open>str(x)\<close>, which is what an f-string field \<^verbatim>\<open>{x}\<close> inserts.\<close>

fun digits :: "nat \<Rightarrow> string" where
  "digits n =
     (if n < 10 then [char_of (48 + n)]
      else digits (n div 10) @ [char_of (48 + n mod 10)])"

fun py_str :: "scalar \<Rightarrow> string" where
  "py_str SNone = ''None''"
| "py_str (SBool b) = (if b then ''True'' else ''False'')"
| "py_str (SInt i) = (if i < 0 then CHR ''-'' # digits (nat (- i)) else digits (nat i))"
| "py_str (SStr s) = s"

text \<open>\<^verbatim>\<open>d.get(k)\<close>: the value, or \<^verbatim>\<open>None\<close> when the key is absent.\<close>

definition dict_get :: "pydict \<Rightarrow> string \<Rightarrow> scalar" where
  "dict_get d k = (case map_of d k of None \<Rightarrow> SNone | Some v \<Rightarrow> v)"

text \<open>\<^verbatim>\<open>d[k]\<close>: raises \<^verbatim>\<open>KeyError\<close> when the key is absent.\<close>

definition dict_index :: "pydict \<Rightarrow> string \<Rightarrow> error + scalar" where
  "dict_index d k = (case map_of d k of None \<Rightarrow> Inl (KeyError k) | Some v \<Rightarrow> Inr v)"

text \<open>
  Looking a scalar up in a dictionary whose keys are strings: only a string can be equal
  to a key.
\<close>

fun key_lookup :: "(string \<times> 'v) list \<Rightarrow> scalar \<Rightarrow> 'v option" where
  "key_lookup d (SStr k) = map_of d k"
| "key_lookup d _ = None"

text \<open>
  \<^verbatim>\<open>str.strip()\<close> removes the leading and trailing whitespace; below code point 256
  the whitespace characters of \<^verbatim>\<open>str.isspace\<close> are 9 to 13, 28 to 32, 133 and 160.
\<close>

definition isspace :: "char \<Rightarrow> bool" where
  "isspace c = ((of_char c :: nat) \<in> {9, 10, 11, 12, 13, 28, 29, 30, 31, 32, 133, 160})"

definition strip :: "string \<Rightarrow> string" where
  "strip s = rev (dropWhile isspace (rev (dropWhile isspace s)))"

text \<open>\<^verbatim>\<open>sep.join(xs)\<close>.\<close>

fun join :: "string \<Rightarrow> string list \<Rightarrow> string" where
  "join sep [] = []"
| "join sep [x] = x"
| "join sep (x # y # ys) = x @ sep @ join sep (y # ys)"

abbreviation (input) sq :: char where
  "sq \<equiv> CHR 0x27"

section \<open>The definition repository: \<^verbatim>\<open>SemanticLayerParser\<close>\<close>

text \<open>
  Each field holds what the loaded document stores under its top-level key
  (\<^verbatim>\<open>taxonomy\<close>, \<^verbatim>\<open>columns\<close>, \<^verbatim>\<open>metrics\<close>), or \<open>None\<close> when the document has no such
  key, in which case the code falls back to the empty dictionary or list.
\<close>

record SemanticLayerParser =
  semantic_dir :: string
  taxonomy :: "(string \<times> typeval) list option"
  metadata :: "(string \<times> pydict) list option"
  metrics :: "pydict list option"




definition taxonomy_dict :: "SemanticLayerParser \<Rightarrow> (string \<times> typeval) list" where
  "taxonomy_dict P = (case taxonomy P of None \<Rightarrow> [] | Some t \<Rightarrow> t)"

text \<open>\<^verbatim>\<open>taxonomy.get(segment_type, {})\<close>.\<close>

definition segments_of :: "SemanticLayerParser \<Rightarrow> scalar \<Rightarrow> typeval" where
  "segments_of P segment_type =
     (case key_lookup (taxonomy_dict P) segment_type of
        None \<Rightarrow> TypeDict []
      | Some segments \<Rightarrow> segments)"

text \<open>
  \<^verbatim>\<open>get_customer_segment\<close>: the stored value, or \<^verbatim>\<open>None\<close>. When the segment type holds
  no dictionary, \<^verbatim>\<open>segment_name in segments\<close> raises \<^verbatim>\<open>TypeError\<close>, except that on a
  string it is the substring test, after which \<^verbatim>\<open>segments[segment_name]\<close> raises
  \<^verbatim>\<open>TypeError\<close>.
\<close>

definition get_customer_segment :: "SemanticLayerParser \<Rightarrow> scalar \<Rightarrow> scalar \<Rightarrow> error + pyval" where
  "get_customer_segment P segment_type segment_name =
     (case segments_of P segment_type of
        TypeDict segments \<Rightarrow>
          (case key_lookup segments segment_name of
             Some v \<Rightarrow> Inr v
           | None \<Rightarrow> Inr (Scalar SNone))
      | TypeScalar (SStr text) \<Rightarrow>
          (case segment_name of
             SStr name \<Rightarrow> if sublist name text then Inl TypeError else Inr (Scalar SNone)
           | _ \<Rightarrow> Inl TypeError)
      | TypeScalar _ \<Rightarrow> Inl TypeError)"

text \<open>\<^verbatim>\<open>get_metric\<close>: the loop over the metric list returns at the first match.\<close>

fun get_metric_loop :: "pydict list \<Rightarrow> string \<Rightarrow> pydict option" where
  "get_metric_loop [] metric_name = None"
| "get_metric_loop (metric # rest) metric_name =
     (if dict_get metric ''name'' = SStr metric_name then Some metric
      else get_metric_loop rest metric_name)"

definition metrics_list :: "SemanticLayerParser \<Rightarrow> pydict list" where
  "metrics_list P = (case metrics P of None \<Rightarrow> [] | Some ms \<Rightarrow> ms)"

definition get_metric :: "SemanticLayerParser \<Rightarrow> string \<Rightarrow> pydict option" where
  "get_metric P metric_name = get_metric_loop (metrics_list P) metric_name"

section \<open>The query generator: \<^verbatim>\<open>QueryGenerator\<close>\<close>

text \<open>\<^verbatim>\<open>metric.get('sql', '').strip()\<close>: only a string has \<^verbatim>\<open>strip\<close>.\<close>

definition metric_sql :: "pydict \<Rightarrow> error + string" where
  "metric_sql metric =
     (case map_of metric ''sql'' of
        None \<Rightarrow> Inr (strip [])
      | Some (SStr s) \<Rightarrow> Inr (strip s)
      | Some _ \<Rightarrow> Inl AttributeError)"

text \<open>The \<^verbatim>\<open>where_clauses\<close> list that \<^verbatim>\<open>generate_metric_sql\<close> builds from the filters.\<close>

definition where_clauses_of :: "SemanticLayerParser \<Rightarrow> pydict option \<Rightarrow> error + string list" where
  "where_clauses_of P filters =
     (case filters of
        None \<Rightarrow> Inr []
      | Some f \<Rightarrow>
          if f = [] then Inr []
          else
            let segment_type = dict_get f ''segment_type'';
                segment_name = dict_get f ''segment''
            in if truthy segment_type \<and> truthy segment_name then
                 (case get_customer_segment P segment_type segment_name of
                    Inl e \<Rightarrow> Inl e
                  | Inr segment \<Rightarrow>
                      if truthy_val segment then
                        (case segment of
                           Dict d \<Rightarrow> Inr [''('' @ py_str (dict_get d ''definition'') @ '')'']
                         | Scalar _ \<Rightarrow> Inl AttributeError)
                      else Inr [])
               else Inr [])"

definition aggregate_query :: "string \<Rightarrow> string list \<Rightarrow> string" where
  "aggregate_query msql where_clauses =
     (let select_clause = ''AVG('' @ msql @ '') as value'';
          query = ''\<newline>            SELECT \<newline>                '' @ select_clause
                  @ ''\<newline>            FROM customers\<newline>            '';
          query = (if where_clauses \<noteq> [] then query @ ''\<newline>WHERE '' @ join '' AND '' where_clauses
                   else query)
      in if sublist ''Income'' msql then
           (if where_clauses \<noteq> [] then query @ ''\<newline>  AND Income IS NOT NULL''
            else query @ ''\<newline>WHERE Income IS NOT NULL'')
         else query)"

definition metric_not_found :: "string \<Rightarrow> string" where
  "metric_not_found metric_name = ''Metric '' @ sq # metric_name @ sq # '' not found''"

definition generate_metric_sql :: "SemanticLayerParser \<Rightarrow> string \<Rightarrow> pydict option \<Rightarrow> error + string" where
  "generate_metric_sql P metric_name filters =
     (case get_metric P metric_name of
        None \<Rightarrow> Inl (ValueError (metric_not_found metric_name @ '' in semantic layer''))
      | Some metric \<Rightarrow>
          if metric = [] then Inl (ValueError (metric_not_found metric_name @ '' in semantic layer''))
          else
            (case metric_sql metric of
               Inl e \<Rightarrow> Inl e
             | Inr msql \<Rightarrow>
                 (case where_clauses_of P filters of
                    Inl e \<Rightarrow> Inl e
                  | Inr where_clauses \<Rightarrow>
                      if dict_get metric ''type'' = SStr ''sum''
                         \<or> dict_get metric ''type'' = SStr ''calculated''
                      then Inr (strip (aggregate_query msql where_clauses))
                      else Inr (strip (''SELECT '' @ msql @ '' FROM customers'')))))"

text \<open>The loop of \<^verbatim>\<open>generate_segment_breakdown\<close> over \<^verbatim>\<open>segments.items()\<close>.\<close>

fun case_clauses :: "(string \<times> pyval) list \<Rightarrow> string list" where
  "case_clauses [] = []"
| "case_clauses ((seg_name, Scalar v) # rest) = case_clauses rest"
| "case_clauses ((seg_name, Dict seg_def) # rest) =
     (let definition = dict_get seg_def ''definition'';
          label = (case map_of seg_def ''label'' of None \<Rightarrow> SStr seg_name | Some l \<Rightarrow> l)
      in if truthy definition
         then (''WHEN '' @ py_str definition @ '' THEN '' @ sq # py_str label @ [sq]) # case_clauses rest
         else case_clauses rest)"

definition case_statement :: "string list \<Rightarrow> string" where
  "case_statement clauses =
     ''CASE\<newline>    '' @ join ''\<newline>    '' clauses @ ''\<newline>    ELSE 'Other'\<newline>END''"

definition generate_segment_breakdown :: "SemanticLayerParser \<Rightarrow> string \<Rightarrow> string \<Rightarrow> error + string" where
  "generate_segment_breakdown P metric_name segment_type =
     (case get_metric P metric_name of
        None \<Rightarrow> Inl (ValueError (metric_not_found metric_name))
      | Some metric \<Rightarrow>
          if metric = [] then Inl (ValueError (metric_not_found metric_name))
          else
            (case metric_sql metric of
               Inl e \<Rightarrow> Inl e
             | Inr msql \<Rightarrow>
                 (case segments_of P (SStr segment_type) of
                    TypeScalar _ \<Rightarrow> Inl AttributeError
                  | TypeDict segments \<Rightarrow>
                      Inr (strip
                        (''\<newline>        SELECT \<newline>            ''
                         @ case_statement (case_clauses segments)
                         @ '' as segment,\<newline>            COUNT(*) as customer_count,\<newline>            ROUND(AVG(''
                         @ msql
                         @ ''), 2) as avg_value\<newline>        FROM customers\<newline>        WHERE Income IS NOT NULL\<newline>        GROUP BY segment\<newline>        ORDER BY avg_value DESC\<newline>        '')))))"

definition comparison_text :: "string \<Rightarrow> pydict \<Rightarrow> pydict \<Rightarrow> string" where
  "comparison_text msql seg_a seg_b =
     ''\<newline>        SELECT \<newline>            '' @ sq # py_str (dict_get seg_a ''label'')
     @ sq # '' as segment,\<newline>            COUNT(*) as customers,\<newline>            ROUND(AVG(''
     @ msql
     @ ''), 2) as avg_value\<newline>        FROM customers\<newline>        WHERE (''
     @ py_str (dict_get seg_a ''definition'')
     @ '')\<newline>          AND Income IS NOT NULL\<newline>        \<newline>        UNION ALL\<newline>        \<newline>        SELECT \<newline>            ''
     @ sq # py_str (dict_get seg_b ''label'')
     @ sq # '' as segment,\<newline>            COUNT(*) as customers,\<newline>            ROUND(AVG(''
     @ msql
     @ ''), 2) as avg_value\<newline>        FROM customers\<newline>        WHERE (''
     @ py_str (dict_get seg_b ''definition'')
     @ '')\<newline>          AND Income IS NOT NULL\<newline>        ''"

definition generate_comparison_query :: "SemanticLayerParser \<Rightarrow> string \<Rightarrow> pydict \<Rightarrow> pydict \<Rightarrow> error + string" where
  "generate_comparison_query P metric_name segment_a segment_b =
     (case get_metric P metric_name of
        None \<Rightarrow> Inl (ValueError (metric_not_found metric_name))
      | Some metric \<Rightarrow>
          if metric = [] then Inl (ValueError (metric_not_found metric_name))
          else
            (case metric_sql metric of
               Inl e \<Rightarrow> Inl e
             | Inr msql \<Rightarrow>
            (case dict_index segment_a ''type'' of
               Inl e \<Rightarrow> Inl e
             | Inr type_a \<Rightarrow>
            (case dict_index segment_a ''name'' of
               Inl e \<Rightarrow> Inl e
             | Inr name_a \<Rightarrow>
            (case get_customer_segment P type_a name_a of
               Inl e \<Rightarrow> Inl e
             | Inr seg_a \<Rightarrow>
            (case dict_index segment_b ''type'' of
               Inl e \<Rightarrow> Inl e
             | Inr type_b \<Rightarrow>
            (case dict_index segment_b ''name'' of
               Inl e \<Rightarrow> Inl e
             | Inr name_b \<Rightarrow>
            (case get_customer_segment P type_b name_b of
               Inl e \<Rightarrow> Inl e
             | Inr seg_b \<Rightarrow>
                 if \<not> truthy_val seg_a \<or> \<not> truthy_val seg_b
                 then Inl (ValueError ''Segment not found'')
                 else
                   (case (seg_a, seg_b) of
                      (Dict a, Dict b) \<Rightarrow> Inr (strip (comparison_text msql a b))
                    | _ \<Rightarrow> Inl AttributeError)))))))))"

section \<open>Example repositories\<close>

text \<open>
  The repository of the scenarios: two segments under \<^verbatim>\<open>family_status\<close>, an additive
  metric, a calculated metric that reads the income column, and two metrics of another
  classification.
\<close>

definition parents :: pydict where
  "parents = [(''definition'', SStr ''Kidhome + Teenhome > 0''), (''label'', SStr ''Parents'')]"

definition no_children :: pydict where
  "no_children = [(''definition'', SStr ''Kidhome + Teenhome = 0''), (''label'', SStr ''No Children'')]"

definition total_spending :: pydict where
  "total_spending =
     [(''name'', SStr ''total_spending''), (''label'', SStr ''Total Spending''),
      (''type'', SStr ''sum''), (''sql'', SStr ''MntWines + MntFruits'')]"

definition spend_ratio :: pydict where
  "spend_ratio =
     [(''name'', SStr ''spend_ratio''), (''label'', SStr ''Spend Ratio''),
      (''type'', SStr ''calculated''), (''sql'', SStr '' MntWines / Income '')]"

definition income :: pydict where
  "income =
     [(''name'', SStr ''income''), (''label'', SStr ''Income''),
      (''type'', SStr ''raw''), (''sql'', SStr ''Income'')]"

definition recency :: pydict where
  "recency =
     [(''name'', SStr ''recency''), (''label'', SStr ''Recency''),
      (''type'', SStr ''raw''), (''sql'', SStr ''Recency'')]"

definition demo :: SemanticLayerParser where
  "demo =
     \<lparr> semantic_dir = ''semantic'',
       taxonomy = Some [(''family_status'', TypeDict [(''parents'', Dict parents), (''no_children'', Dict no_children)])],
       metadata = Some [(''Income'', [(''display_name'', SStr ''Income'')])],
       metrics = Some [total_spending, spend_ratio, income, recency] \<rparr>"

text \<open>A catalog in which two entries carry the same name.\<close>

definition total_spending_later :: pydict where
  "total_spending_later =
     [(''name'', SStr ''total_spending''), (''label'', SStr ''Total Spending (new)''),
      (''type'', SStr ''sum''), (''sql'', SStr ''MntWines'')]"

definition dup_catalog :: SemanticLayerParser where
  "dup_catalog = demo \<lparr> metrics := Some [recency, total_spending, total_spending_later] \<rparr>"

text \<open>A taxonomy whose only segment type has the empty string as its name.\<close>

definition vip :: pydict where
  "vip = [(''definition'', SStr ''Income > 80000''), (''label'', SStr ''VIP'')]"

definition unnamed_type :: SemanticLayerParser where
  "unnamed_type = demo \<lparr> taxonomy := Some [('''', TypeDict [(''vip'', Dict vip)])] \<rparr>"

text \<open>
  A taxonomy that declares the segment type \<^verbatim>\<open>loyalty_tiers\<close> with nothing under it:
  the line \<^verbatim>\<open>loyalty_tiers:\<close> loads as the value \<^verbatim>\<open>None\<close>.
\<close>

definition null_type :: SemanticLayerParser where
  "null_type =
     demo \<lparr> taxonomy := Some [(''family_status'', TypeDict [(''parents'', Dict parents)]),
                               (''loyalty_tiers'', TypeScalar SNone)] \<rparr>"

text \<open>Filters: a segment of the taxonomy, and two pairs the taxonomy does not have.\<close>

definition parents_filter :: pydict where
  "parents_filter = [(''segment_type'', SStr ''family_status''), (''segment'', SStr ''parents'')]"



text \<open>Segment references of a comparison: two that resolve, one unknown, one without a name.\<close>

definition parents_ref :: pydict where
  "parents_ref = [(''type'', SStr ''family_status''), (''name'', SStr ''parents'')]"

definition no_children_ref :: pydict where
  "no_children_ref = [(''type'', SStr ''family_status''), (''name'', SStr ''no_children'')]"




section \<open>Auxiliary facts\<close>

subsection \<open>Stripping a framed text\<close>

lemma dropWhile_frame:
  assumes "\<forall>c\<in>set pre. P c" and "body \<noteq> []" and "\<not> P (hd body)"
  shows "dropWhile P (pre @ body @ post) = body @ post"
proof -
  from assms(2) obtain b bs where body: "body = b # bs" by (cases body) auto
  with assms(3) have "\<not> P b" by simp
  with body have "dropWhile P (body @ post) = body @ post" by simp
  with assms(1) show ?thesis by simp
qed

lemma strip_frame:
  assumes pre: "\<forall>c\<in>set pre. isspace c" and post: "\<forall>c\<in>set post. isspace c"
    and ne: "body \<noteq> []" and fst_ns: "\<not> isspace (hd body)" and lst_ns: "\<not> isspace (last body)"
  shows "strip (pre @ body @ post) = body"
proof -
  have front: "dropWhile isspace (pre @ body @ post) = body @ post"
    using pre ne fst_ns by (rule dropWhile_frame)
  have "dropWhile isspace (rev post @ rev body @ []) = rev body @ []"
  proof (rule dropWhile_frame)
    show "\<forall>c\<in>set (rev post). isspace c" using post by simp
    show "rev body \<noteq> []" using ne by simp
    show "\<not> isspace (hd (rev body))" using ne lst_ns by (simp add: hd_rev)
  qed
  then have rear: "dropWhile isspace (rev (body @ post)) = rev body" by simp
  show ?thesis unfolding strip_def front rear by simp
qed

lemma strip_body:
  "body \<noteq> [] \<Longrightarrow> \<not> isspace (hd body) \<Longrightarrow> \<not> isspace (last body) \<Longrightarrow> strip body = body"
  using strip_frame [of "[]" "[]" body] by simp

subsection \<open>The metric lookup loop\<close>

lemma get_metric_loop_None:
  "get_metric_loop ms n = None \<longleftrightarrow> (\<forall>m\<in>set ms. dict_get m ''name'' \<noteq> SStr n)"
  by (induction ms) auto

lemma get_metric_loop_skip:
  "\<forall>x\<in>set pre. dict_get x ''name'' \<noteq> SStr n \<Longrightarrow>
     get_metric_loop (pre @ ms) n = get_metric_loop ms n"
  by (induction pre) auto

lemma get_metric_loop_Some:
  "get_metric_loop ms n = Some m \<Longrightarrow>
     \<exists>pre post. ms = pre @ m # post \<and> dict_get m ''name'' = SStr n
       \<and> (\<forall>x\<in>set pre. dict_get x ''name'' \<noteq> SStr n)"
proof (induction ms)
  case Nil
  then show ?case by simp
next
  case (Cons a ms)
  show ?case
  proof (cases "dict_get a ''name'' = SStr n")
    case True
    with Cons.prems have "a = m" by simp
    with True have "a # ms = [] @ m # ms \<and> dict_get m ''name'' = SStr n
        \<and> (\<forall>x\<in>set []. dict_get x ''name'' \<noteq> SStr n)" by simp
    then show ?thesis by blast
  next
    case False
    with Cons.prems have "get_metric_loop ms n = Some m" by simp
    from Cons.IH [OF this] obtain pre post where
      "ms = pre @ m # post" "dict_get m ''name'' = SStr n"
      "\<forall>x\<in>set pre. dict_get x ''name'' \<noteq> SStr n" by blast
    with False have "a # ms = (a # pre) @ m # post \<and> dict_get m ''name'' = SStr n
        \<and> (\<forall>x\<in>set (a # pre). dict_get x ''name'' \<noteq> SStr n)" by simp
    then show ?thesis by blast
  qed
qed

lemma get_metric_nonempty: "get_metric P n = Some m \<Longrightarrow> m \<noteq> []"
  unfolding get_metric_def by (auto dest!: get_metric_loop_Some simp: dict_get_def)

section \<open>The metric lookup\<close>

text \<open>
  C10. \<^verbatim>\<open>get_metric\<close> returns the first entry of the configured metric list whose
  \<^verbatim>\<open>name\<close> field equals the queried name exactly: every entry before the returned one has
  another name, so of two entries with the same name the earlier one is returned. It
  returns \<^verbatim>\<open>None\<close> if and only if no entry has that name.
\<close>

theorem get_metric_first_match:
  "(get_metric P n = None \<longleftrightarrow> (\<forall>m\<in>set (metrics_list P). dict_get m ''name'' \<noteq> SStr n))
   \<and> (get_metric P n = Some m \<longleftrightarrow>
        (\<exists>pre post. metrics_list P = pre @ m # post \<and> dict_get m ''name'' = SStr n
           \<and> (\<forall>x\<in>set pre. dict_get x ''name'' \<noteq> SStr n)))"
proof (intro conjI iffI)
  assume "get_metric P n = None"
  then show "\<forall>m\<in>set (metrics_list P). dict_get m ''name'' \<noteq> SStr n"
    by (simp add: get_metric_def get_metric_loop_None)
next
  assume "\<forall>m\<in>set (metrics_list P). dict_get m ''name'' \<noteq> SStr n"
  then show "get_metric P n = None"
    by (simp add: get_metric_def get_metric_loop_None)
next
  assume "get_metric P n = Some m"
  then show "\<exists>pre post. metrics_list P = pre @ m # post \<and> dict_get m ''name'' = SStr n
      \<and> (\<forall>x\<in>set pre. dict_get x ''name'' \<noteq> SStr n)"
    unfolding get_metric_def by (rule get_metric_loop_Some)
next
  assume "\<exists>pre post. metrics_list P = pre @ m # post \<and> dict_get m ''name'' = SStr n
      \<and> (\<forall>x\<in>set pre. dict_get x ''name'' \<noteq> SStr n)"
  then obtain pre post where "metrics_list P = pre @ m # post"
    "dict_get m ''name'' = SStr n" "\<forall>x\<in>set pre. dict_get x ''name'' \<noteq> SStr n" by blast
  then show "get_metric P n = Some m"
    by (simp add: get_metric_def get_metric_loop_skip)
qed

theorem get_metric_first_match_witness:
  "metrics_list dup_catalog = [recency] @ total_spending # [total_spending_later]
   \<and> dict_get total_spending_later ''name'' = SStr ''total_spending''
   \<and> get_metric dup_catalog ''total_spending'' = Some total_spending
   \<and> get_metric dup_catalog ''nonexistent_metric'' = None"
proof -
  have split: "metrics_list dup_catalog = [recency] @ total_spending # [total_spending_later]"
    by (simp add: metrics_list_def dup_catalog_def)
  have name: "dict_get total_spending ''name'' = SStr ''total_spending''"
    by (simp add: dict_get_def total_spending_def)
  have before: "\<forall>x\<in>set [recency]. dict_get x ''name'' \<noteq> SStr ''total_spending''"
    by (simp add: dict_get_def recency_def)
  have absent: "\<forall>m\<in>set (metrics_list dup_catalog). dict_get m ''name'' \<noteq> SStr ''nonexistent_metric''"
    by (simp add: split dict_get_def recency_def total_spending_def total_spending_later_def)
  have later: "dict_get total_spending_later ''name'' = SStr ''total_spending''"
    by (simp add: dict_get_def total_spending_later_def)
  from get_metric_first_match [of dup_catalog "''total_spending''" total_spending]
    split name before
  have "get_metric dup_catalog ''total_spending'' = Some total_spending" by blast
  moreover from get_metric_first_match [of dup_catalog "''nonexistent_metric''" total_spending] absent
  have "get_metric dup_catalog ''nonexistent_metric'' = None" by blast
  ultimately show ?thesis using split later by blast
qed

section \<open>Facts about the point-metric generator\<close>

lemma strip_else: "strip (''SELECT '' @ msql @ '' FROM customers'') = ''SELECT '' @ msql @ '' FROM customers''"
  by (rule strip_body) (simp_all add: isspace_def)

lemma strip_aggregate_filter:
  "strip (aggregate_query msql [''('' @ d @ '')'']) =
     ''SELECT \<newline>                AVG('' @ msql @ '') as value\<newline>            FROM customers\<newline>            \<newline>WHERE ('' @ d @ '')''
     @ (if sublist ''Income'' msql then ''\<newline>  AND Income IS NOT NULL'' else [])"
proof -
  let ?body = "''SELECT \<newline>                AVG('' @ msql @ '') as value\<newline>            FROM customers\<newline>            \<newline>WHERE ('' @ d @ '')''
     @ (if sublist ''Income'' msql then ''\<newline>  AND Income IS NOT NULL'' else [])"
  have "aggregate_query msql [''('' @ d @ '')''] = ''\<newline>            '' @ ?body @ []"
    by (simp add: aggregate_query_def)
  moreover have "strip (''\<newline>            '' @ ?body @ []) = ?body"
    by (rule strip_frame) (simp_all add: isspace_def)
  ultimately show ?thesis by simp
qed

lemma strip_aggregate_plain:
  "strip (aggregate_query msql []) =
     ''SELECT \<newline>                AVG('' @ msql @ '') as value\<newline>            FROM customers''
     @ (if sublist ''Income'' msql then ''\<newline>            \<newline>WHERE Income IS NOT NULL'' else [])"
proof (cases "sublist ''Income'' msql")
  case True
  let ?body = "''SELECT \<newline>                AVG('' @ msql @ '') as value\<newline>            FROM customers\<newline>            \<newline>WHERE Income IS NOT NULL''"
  have "aggregate_query msql [] = ''\<newline>            '' @ ?body @ []"
    using True by (simp add: aggregate_query_def)
  moreover have "strip (''\<newline>            '' @ ?body @ []) = ?body"
    by (rule strip_frame) (simp_all add: isspace_def)
  ultimately show ?thesis using True by simp
next
  case False
  let ?body = "''SELECT \<newline>                AVG('' @ msql @ '') as value\<newline>            FROM customers''"
  have "aggregate_query msql [] = ''\<newline>            '' @ ?body @ ''\<newline>            ''"
    using False by (simp add: aggregate_query_def)
  moreover have "strip (''\<newline>            '' @ ?body @ ''\<newline>            '') = ?body"
    by (rule strip_frame) (simp_all add: isspace_def)
  ultimately show ?thesis using False by simp
qed

lemma generate_metric_sql_resolved:
  assumes "get_metric P n = Some m" and "metric_sql m = Inr msql" and "where_clauses_of P f = Inr wc"
  shows "generate_metric_sql P n f =
    Inr (strip (if dict_get m ''type'' = SStr ''sum'' \<or> dict_get m ''type'' = SStr ''calculated''
                then aggregate_query msql wc else ''SELECT '' @ msql @ '' FROM customers''))"
  using assms get_metric_nonempty [OF assms(1)] by (simp add: generate_metric_sql_def)

text \<open>
  The else branch of \<^verbatim>\<open>generate_metric_sql\<close> does not render the \<^verbatim>\<open>where_clauses\<close> list.
\<close>

lemma other_classification_statement:
  assumes "get_metric P n = Some m" and "metric_sql m = Inr msql" and "where_clauses_of P f = Inr wc"
    and "dict_get m ''type'' \<noteq> SStr ''sum''" and "dict_get m ''type'' \<noteq> SStr ''calculated''"
  shows "generate_metric_sql P n f = Inr (''SELECT '' @ msql @ '' FROM customers'')"
  using generate_metric_sql_resolved [OF assms(1-3)] assms(4,5)
  by (simp only: strip_else simp_thms if_False)

lemma where_clauses_resolved:
  assumes "dict_get f ''segment_type'' = SStr t" and "dict_get f ''segment'' = SStr s"
    and "t \<noteq> []" and "s \<noteq> []"
    and "get_customer_segment P (SStr t) (SStr s) = Inr (Dict d)"
    and "map_of d ''definition'' = Some (SStr defn)"
  shows "where_clauses_of P (Some f) = Inr [''('' @ defn @ '')'']"
proof -
  from assms(1) have "f \<noteq> []" by (auto simp: dict_get_def)
  moreover from assms(6) have "d \<noteq> []" by auto
  moreover from assms(6) have "dict_get d ''definition'' = SStr defn" by (simp add: dict_get_def)
  ultimately show ?thesis using assms(1-5) by (simp add: where_clauses_of_def)
qed

lemma where_clauses_shape:
  "where_clauses_of P f = Inr wc \<Longrightarrow> wc = [] \<or> (\<exists>x. wc = [''('' @ x @ '')''])"
  by (auto simp: where_clauses_of_def Let_def split: option.splits if_splits pyval.splits sum.splits)

section \<open>The point-metric generator\<close>

text \<open>
  C1, as amended. For a metric that resolves with classification \<^verbatim>\<open>sum\<close> or
  \<^verbatim>\<open>calculated\<close> and a filter whose segment type and segment name are non-empty strings
  that resolve to a segment with a definition string, the returned SQL is the aggregate
  SELECT followed by a WHERE clause that holds the definition, unchanged, in parentheses
  (and then the income null filter when the expression contains \<^verbatim>\<open>Income\<close>).
\<close>

theorem filter_definition_in_where_clause:
  assumes "get_metric P n = Some m" and "metric_sql m = Inr msql"
    and "dict_get m ''type'' = SStr ''sum'' \<or> dict_get m ''type'' = SStr ''calculated''"
    and "dict_get f ''segment_type'' = SStr t" and "dict_get f ''segment'' = SStr s"
    and "t \<noteq> []" and "s \<noteq> []"
    and "get_customer_segment P (SStr t) (SStr s) = Inr (Dict d)"
    and "map_of d ''definition'' = Some (SStr defn)"
  shows "generate_metric_sql P n (Some f) =
    Inr (''SELECT \<newline>                AVG('' @ msql @ '') as value\<newline>            FROM customers\<newline>            \<newline>WHERE ('' @ defn @ '')''
         @ (if sublist ''Income'' msql then ''\<newline>  AND Income IS NOT NULL'' else []))"
proof -
  have "where_clauses_of P (Some f) = Inr [''('' @ defn @ '')'']"
    using assms(4-9) by (rule where_clauses_resolved)
  from generate_metric_sql_resolved [OF assms(1,2) this] assms(3)
  show ?thesis by (simp only: strip_aggregate_filter if_True)
qed

theorem filter_definition_in_where_clause_witness:
  "get_metric demo ''total_spending'' = Some total_spending
   \<and> metric_sql total_spending = Inr ''MntWines + MntFruits''
   \<and> dict_get total_spending ''type'' = SStr ''sum''
   \<and> get_customer_segment demo (SStr ''family_status'') (SStr ''parents'') = Inr (Dict parents)
   \<and> map_of parents ''definition'' = Some (SStr ''Kidhome + Teenhome > 0'')
   \<and> generate_metric_sql demo ''total_spending'' (Some parents_filter) =
       Inr ''SELECT \<newline>                AVG(MntWines + MntFruits) as value\<newline>            FROM customers\<newline>            \<newline>WHERE (Kidhome + Teenhome > 0)''"
proof -
  have m: "get_metric demo ''total_spending'' = Some total_spending" by code_simp
  have q: "metric_sql total_spending = Inr ''MntWines + MntFruits''" by code_simp
  have c: "dict_get total_spending ''type'' = SStr ''sum'' \<or> dict_get total_spending ''type'' = SStr ''calculated''"
    by code_simp
  have t: "dict_get parents_filter ''segment_type'' = SStr ''family_status''" by code_simp
  have s: "dict_get parents_filter ''segment'' = SStr ''parents''" by code_simp
  have g: "get_customer_segment demo (SStr ''family_status'') (SStr ''parents'') = Inr (Dict parents)"
    by code_simp
  have d: "map_of parents ''definition'' = Some (SStr ''Kidhome + Teenhome > 0'')" by code_simp
  have i: "sublist ''Income'' ''MntWines + MntFruits'' = False" by code_simp
  have k: "dict_get total_spending ''type'' = SStr ''sum''" by code_simp
  from filter_definition_in_where_clause [OF m q c t s _ _ g d] i
  have "generate_metric_sql demo ''total_spending'' (Some parents_filter) =
       Inr ''SELECT \<newline>                AVG(MntWines + MntFruits) as value\<newline>            FROM customers\<newline>            \<newline>WHERE (Kidhome + Teenhome > 0)''"
    by simp
  with m q k g d show ?thesis by blast
qed

text \<open>
  C1 as stated fails where the guard \<^verbatim>\<open>if segment_type and segment_name\<close> skips the
  lookup: under a segment type named by the empty string the pair resolves in the
  repository, and the returned SQL has no WHERE clause.
\<close>

theorem empty_segment_type_filter_dropped:
  "get_metric unnamed_type ''total_spending'' = Some total_spending
   \<and> get_customer_segment unnamed_type (SStr '''') (SStr ''vip'') = Inr (Dict vip)
   \<and> map_of vip ''definition'' = Some (SStr ''Income > 80000'')
   \<and> generate_metric_sql unnamed_type ''total_spending''
        (Some [(''segment_type'', SStr ''''), (''segment'', SStr ''vip'')]) =
       Inr ''SELECT \<newline>                AVG(MntWines + MntFruits) as value\<newline>            FROM customers''
   \<and> \<not> sublist ''(Income > 80000)''
        ''SELECT \<newline>                AVG(MntWines + MntFruits) as value\<newline>            FROM customers''"
  by code_simp




text \<open>
  C3, as amended. Without a filter, a metric of classification \<^verbatim>\<open>sum\<close> or
  \<^verbatim>\<open>calculated\<close> yields the aggregate SELECT with nothing after \<^verbatim>\<open>FROM customers\<close> when
  its expression does not contain \<^verbatim>\<open>Income\<close>, and followed by the single clause
  \<^verbatim>\<open>WHERE Income IS NOT NULL\<close> when it does; a metric of any other classification yields
  \<^verbatim>\<open>SELECT <expr> FROM customers\<close> with no WHERE clause in either case.
\<close>

theorem unfiltered_where_clause:
  assumes "get_metric P n = Some m" and "metric_sql m = Inr msql"
  shows "generate_metric_sql P n None =
    Inr (if dict_get m ''type'' = SStr ''sum'' \<or> dict_get m ''type'' = SStr ''calculated''
         then ''SELECT \<newline>                AVG('' @ msql @ '') as value\<newline>            FROM customers''
              @ (if sublist ''Income'' msql then ''\<newline>            \<newline>WHERE Income IS NOT NULL'' else [])
         else ''SELECT '' @ msql @ '' FROM customers'')"
proof -
  have "where_clauses_of P None = Inr []" by (simp add: where_clauses_of_def)
  from generate_metric_sql_resolved [OF assms this]
  show ?thesis by (simp only: strip_aggregate_plain strip_else if_distrib [of strip])
qed

theorem unfiltered_where_clause_witness:
  "get_metric demo ''spend_ratio'' = Some spend_ratio
   \<and> metric_sql spend_ratio = Inr ''MntWines / Income''
   \<and> generate_metric_sql demo ''spend_ratio'' None =
       Inr ''SELECT \<newline>                AVG(MntWines / Income) as value\<newline>            FROM customers\<newline>            \<newline>WHERE Income IS NOT NULL''"
proof -
  have m: "get_metric demo ''spend_ratio'' = Some spend_ratio" by code_simp
  have q: "metric_sql spend_ratio = Inr ''MntWines / Income''" by code_simp
  have c: "dict_get spend_ratio ''type'' = SStr ''calculated''" by code_simp
  have i: "sublist ''Income'' ''MntWines / Income'' = True" by code_simp
  from unfiltered_where_clause [OF m q] c i
  have "generate_metric_sql demo ''spend_ratio'' None =
       Inr ''SELECT \<newline>                AVG(MntWines / Income) as value\<newline>            FROM customers\<newline>            \<newline>WHERE Income IS NOT NULL''"
    by simp
  with m q show ?thesis by blast
qed

text \<open>
  C3 as stated fails for a metric of classification \<^verbatim>\<open>raw\<close> whose expression contains
  \<^verbatim>\<open>Income\<close>: the null filter is written inside the aggregate branch only.
\<close>

theorem raw_income_metric_has_no_where:
  "get_metric demo ''income'' = Some income
   \<and> metric_sql income = Inr ''Income''
   \<and> sublist ''Income'' ''Income''
   \<and> generate_metric_sql demo ''income'' None = Inr ''SELECT Income FROM customers''
   \<and> \<not> sublist ''WHERE'' ''SELECT Income FROM customers''"
  by code_simp

text \<open>
  C4, as amended. For a metric that resolves, the returned SQL starts with
  \<^verbatim>\<open>SELECT AVG(<expr>) as value FROM customers\<close> (laid out over three lines) when the
  classification is \<^verbatim>\<open>sum\<close> or \<^verbatim>\<open>calculated\<close>, and with \<^verbatim>\<open>SELECT <expr> FROM customers\<close>,
  the expression neither wrapped nor aliased, otherwise.
\<close>

theorem select_clause_form:
  assumes "get_metric P n = Some m" and "metric_sql m = Inr msql" and "where_clauses_of P f = Inr wc"
  shows "\<exists>rest. generate_metric_sql P n f =
    Inr ((if dict_get m ''type'' = SStr ''sum'' \<or> dict_get m ''type'' = SStr ''calculated''
          then ''SELECT \<newline>                AVG('' @ msql @ '') as value\<newline>            FROM customers''
          else ''SELECT '' @ msql @ '' FROM customers'') @ rest)"
proof (cases "dict_get m ''type'' = SStr ''sum'' \<or> dict_get m ''type'' = SStr ''calculated''")
  case False
  with generate_metric_sql_resolved [OF assms]
  have "generate_metric_sql P n f = Inr ((''SELECT '' @ msql @ '' FROM customers'') @ [])"
    by (simp only: strip_else if_False append_Nil2)
  with False show ?thesis by (simp only: if_False) (rule exI, rule refl)
next
  case True
  from where_clauses_shape [OF assms(3)] show ?thesis
  proof
    assume "wc = []"
    with generate_metric_sql_resolved [OF assms] True
    have "generate_metric_sql P n f =
      Inr ((''SELECT \<newline>                AVG('' @ msql @ '') as value\<newline>            FROM customers'')
           @ (if sublist ''Income'' msql then ''\<newline>            \<newline>WHERE Income IS NOT NULL'' else []))"
      by (simp only: strip_aggregate_plain if_True) simp
    with True show ?thesis by (simp only: if_True) (rule exI, rule refl)
  next
    assume "\<exists>x. wc = [''('' @ x @ '')'']"
    then obtain x where "wc = [''('' @ x @ '')'']" ..
    with generate_metric_sql_resolved [OF assms] True
    have "generate_metric_sql P n f =
      Inr ((''SELECT \<newline>                AVG('' @ msql @ '') as value\<newline>            FROM customers'')
           @ (''\<newline>            \<newline>WHERE ('' @ x @ '')''
           @ (if sublist ''Income'' msql then ''\<newline>  AND Income IS NOT NULL'' else [])))"
      by (simp only: strip_aggregate_filter if_True) simp
    with True show ?thesis by (simp only: if_True) (rule exI, rule refl)
  qed
qed

theorem select_clause_form_witness:
  "get_metric demo ''total_spending'' = Some total_spending
   \<and> metric_sql total_spending = Inr ''MntWines + MntFruits''
   \<and> where_clauses_of demo (Some parents_filter) = Inr [''(Kidhome + Teenhome > 0)'']
   \<and> (\<exists>rest. generate_metric_sql demo ''total_spending'' (Some parents_filter) =
         Inr (''SELECT \<newline>                AVG(MntWines + MntFruits) as value\<newline>            FROM customers'' @ rest))"
proof -
  have m: "get_metric demo ''total_spending'' = Some total_spending" by code_simp
  have q: "metric_sql total_spending = Inr ''MntWines + MntFruits''" by code_simp
  have w: "where_clauses_of demo (Some parents_filter) = Inr [''(Kidhome + Teenhome > 0)'']"
    by code_simp
  have k: "dict_get total_spending ''type'' = SStr ''sum''" by code_simp
  from select_clause_form [OF m q w] k
  have "\<exists>rest. generate_metric_sql demo ''total_spending'' (Some parents_filter) =
         Inr (''SELECT \<newline>                AVG(MntWines + MntFruits) as value\<newline>            FROM customers'' @ rest)"
    by simp
  with m q w show ?thesis by blast
qed

text \<open>
  C4 as stated fails for a metric of another classification: the statement has no alias
  \<^verbatim>\<open>value\<close>.
\<close>

theorem raw_metric_has_no_alias:
  "get_metric demo ''recency'' = Some recency
   \<and> dict_get recency ''type'' = SStr ''raw''
   \<and> generate_metric_sql demo ''recency'' None = Inr ''SELECT Recency FROM customers''
   \<and> \<not> sublist ''value'' ''SELECT Recency FROM customers''"
  by code_simp

section \<open>The segment-breakdown generator\<close>







text \<open>
  C8 says that for a metric that resolves and a segment type under which the repository
  stores no segments the generator does not fail and returns the query whose CASE
  expression is the ELSE branch alone. The code does so when the taxonomy does not have
  the type or the type holds the empty dictionary (\<open>breakdown_without_segments\<close>). When
  the type is declared with nothing under it, \<^verbatim>\<open>taxonomy.get(segment_type, {})\<close> returns
  \<^verbatim>\<open>None\<close> and \<^verbatim>\<open>segments.items()\<close> raises \<^verbatim>\<open>AttributeError\<close>: no SQL is returned.
\<close>

theorem breakdown_fails_on_null_type:
  "get_metric null_type ''total_spending'' = Some total_spending
   \<and> metric_sql total_spending = Inr ''MntWines + MntFruits''
   \<and> segments_of null_type (SStr ''loyalty_tiers'') = TypeScalar SNone
   \<and> generate_segment_breakdown null_type ''total_spending'' ''loyalty_tiers'' = Inl AttributeError"
  by code_simp

section \<open>The comparison generator\<close>

lemma strip_comparison_text:
  "strip (comparison_text msql a b) =
     ''SELECT \<newline>            '' @ sq # py_str (dict_get a ''label'')
     @ sq # '' as segment,\<newline>            COUNT(*) as customers,\<newline>            ROUND(AVG(''
     @ msql
     @ ''), 2) as avg_value\<newline>        FROM customers\<newline>        WHERE (''
     @ py_str (dict_get a ''definition'')
     @ '')\<newline>          AND Income IS NOT NULL\<newline>        \<newline>        UNION ALL\<newline>        \<newline>        SELECT \<newline>            ''
     @ sq # py_str (dict_get b ''label'')
     @ sq # '' as segment,\<newline>            COUNT(*) as customers,\<newline>            ROUND(AVG(''
     @ msql
     @ ''), 2) as avg_value\<newline>        FROM customers\<newline>        WHERE (''
     @ py_str (dict_get b ''definition'')
     @ '')\<newline>          AND Income IS NOT NULL''"
  (is "_ = ?body")
proof -
  have "strip (''\<newline>        '' @ ?body @ ''\<newline>        '') = ?body"
    by (rule strip_frame) (simp_all add: isspace_def)
  moreover have "comparison_text msql a b = ''\<newline>        '' @ ?body @ ''\<newline>        ''"
    by (simp add: comparison_text_def)
  ultimately show ?thesis by simp
qed

lemma generate_comparison_query_resolved:
  assumes "get_metric P n = Some m" and "metric_sql m = Inr msql"
    and "map_of segment_a ''type'' = Some type_a" and "map_of segment_a ''name'' = Some name_a"
    and "map_of segment_b ''type'' = Some type_b" and "map_of segment_b ''name'' = Some name_b"
    and "get_customer_segment P type_a name_a = Inr seg_a"
    and "get_customer_segment P type_b name_b = Inr seg_b"
  shows "generate_comparison_query P n segment_a segment_b =
    (if \<not> truthy_val seg_a \<or> \<not> truthy_val seg_b
     then Inl (ValueError ''Segment not found'')
     else (case (seg_a, seg_b) of
             (Dict a, Dict b) \<Rightarrow> Inr (strip (comparison_text msql a b))
           | _ \<Rightarrow> Inl AttributeError))"
  using assms get_metric_nonempty [OF assms(1)]
  by (simp add: generate_comparison_query_def dict_index_def)

text \<open>
  C6. For a metric that resolves and two segment references that resolve, the returned
  SQL is one SELECT block applied to each segment, the two joined by \<^verbatim>\<open>UNION ALL\<close>. The
  block selects the segment's label as a string literal, \<^verbatim>\<open>COUNT(*)\<close> and
  \<^verbatim>\<open>ROUND(AVG(<expr>), 2)\<close>, and its WHERE clause is the segment's definition in
  parentheses and \<^verbatim>\<open>Income IS NOT NULL\<close>.
\<close>

theorem comparison_two_blocks:
  assumes "get_metric P n = Some m" and "metric_sql m = Inr msql"
    and "map_of segment_a ''type'' = Some type_a" and "map_of segment_a ''name'' = Some name_a"
    and "map_of segment_b ''type'' = Some type_b" and "map_of segment_b ''name'' = Some name_b"
    and "get_customer_segment P type_a name_a = Inr (Dict a)"
    and "map_of a ''label'' = Some (SStr label_a)" and "map_of a ''definition'' = Some (SStr defn_a)"
    and "get_customer_segment P type_b name_b = Inr (Dict b)"
    and "map_of b ''label'' = Some (SStr label_b)" and "map_of b ''definition'' = Some (SStr defn_b)"
  shows "let block = (\<lambda>label defn.
            ''SELECT \<newline>            '' @ sq # label
            @ sq # '' as segment,\<newline>            COUNT(*) as customers,\<newline>            ROUND(AVG(''
            @ msql
            @ ''), 2) as avg_value\<newline>        FROM customers\<newline>        WHERE (''
            @ defn
            @ '')\<newline>          AND Income IS NOT NULL'')
         in generate_comparison_query P n segment_a segment_b =
              Inr (block label_a defn_a
                   @ ''\<newline>        \<newline>        UNION ALL\<newline>        \<newline>        ''
                   @ block label_b defn_b)"
proof -
  from assms(8,9) have a: "a \<noteq> []" "dict_get a ''label'' = SStr label_a"
      "dict_get a ''definition'' = SStr defn_a"
    by (auto simp: dict_get_def)
  from assms(11,12) have b: "b \<noteq> []" "dict_get b ''label'' = SStr label_b"
      "dict_get b ''definition'' = SStr defn_b"
    by (auto simp: dict_get_def)
  have "generate_comparison_query P n segment_a segment_b = Inr (strip (comparison_text msql a b))"
    unfolding generate_comparison_query_resolved [OF assms(1-6) assms(7) assms(10)]
    using a(1) b(1) by simp
  then show ?thesis
    unfolding strip_comparison_text a b by (simp add: Let_def)
qed

theorem comparison_two_blocks_witness:
  "get_metric demo ''total_spending'' = Some total_spending
   \<and> metric_sql total_spending = Inr ''MntWines + MntFruits''
   \<and> get_customer_segment demo (SStr ''family_status'') (SStr ''parents'') = Inr (Dict parents)
   \<and> get_customer_segment demo (SStr ''family_status'') (SStr ''no_children'') = Inr (Dict no_children)
   \<and> generate_comparison_query demo ''total_spending'' parents_ref no_children_ref =
       Inr ''SELECT \<newline>            'Parents' as segment,\<newline>            COUNT(*) as customers,\<newline>            ROUND(AVG(MntWines + MntFruits), 2) as avg_value\<newline>        FROM customers\<newline>        WHERE (Kidhome + Teenhome > 0)\<newline>          AND Income IS NOT NULL\<newline>        \<newline>        UNION ALL\<newline>        \<newline>        SELECT \<newline>            'No Children' as segment,\<newline>            COUNT(*) as customers,\<newline>            ROUND(AVG(MntWines + MntFruits), 2) as avg_value\<newline>        FROM customers\<newline>        WHERE (Kidhome + Teenhome = 0)\<newline>          AND Income IS NOT NULL''"
proof -
  have m: "get_metric demo ''total_spending'' = Some total_spending" by code_simp
  have q: "metric_sql total_spending = Inr ''MntWines + MntFruits''" by code_simp
  have ta: "map_of parents_ref ''type'' = Some (SStr ''family_status'')" by code_simp
  have na: "map_of parents_ref ''name'' = Some (SStr ''parents'')" by code_simp
  have tb: "map_of no_children_ref ''type'' = Some (SStr ''family_status'')" by code_simp
  have nb: "map_of no_children_ref ''name'' = Some (SStr ''no_children'')" by code_simp
  have ga: "get_customer_segment demo (SStr ''family_status'') (SStr ''parents'') = Inr (Dict parents)"
    by code_simp
  have gb: "get_customer_segment demo (SStr ''family_status'') (SStr ''no_children'') = Inr (Dict no_children)"
    by code_simp
  have la: "map_of parents ''label'' = Some (SStr ''Parents'')" by code_simp
  have da: "map_of parents ''definition'' = Some (SStr ''Kidhome + Teenhome > 0'')" by code_simp
  have lb: "map_of no_children ''label'' = Some (SStr ''No Children'')" by code_simp
  have db: "map_of no_children ''definition'' = Some (SStr ''Kidhome + Teenhome = 0'')" by code_simp
  from comparison_two_blocks [OF m q ta na tb nb ga la da gb lb db]
  have "generate_comparison_query demo ''total_spending'' parents_ref no_children_ref =
       Inr ''SELECT \<newline>            'Parents' as segment,\<newline>            COUNT(*) as customers,\<newline>            ROUND(AVG(MntWines + MntFruits), 2) as avg_value\<newline>        FROM customers\<newline>        WHERE (Kidhome + Teenhome > 0)\<newline>          AND Income IS NOT NULL\<newline>        \<newline>        UNION ALL\<newline>        \<newline>        SELECT \<newline>            'No Children' as segment,\<newline>            COUNT(*) as customers,\<newline>            ROUND(AVG(MntWines + MntFruits), 2) as avg_value\<newline>        FROM customers\<newline>        WHERE (Kidhome + Teenhome = 0)\<newline>          AND Income IS NOT NULL''"
    by (simp add: Let_def)
  with m q ga gb show ?thesis by blast
qed

section \<open>Error outcomes\<close>












end
